theory Spec2Isabelle
  imports Complex_Main
begin

section \<open>Calendar dates\<close>

text \<open>
  The report script works with \<^verbatim>\<open>datetime.date\<close> values: \<^verbatim>\<open>today.date()\<close>, the
  \<^verbatim>\<open>end_date\<close> column (timestamps at midnight, one per calendar day) and differences
  \<^verbatim>\<open>today.date() - dt.timedelta(days=k)\<close>. A date is its year, month and day.
\<close>

datatype date = Date (year: int) (month: int) (day: int)

definition is_leap :: "int \<Rightarrow> bool" where
  "is_leap y = (if y mod 100 = 0 then y mod 400 = 0 else y mod 4 = 0)"

definition days_in_month :: "int \<Rightarrow> int \<Rightarrow> int" where
  "days_in_month y m =
     (if m = 2 then (if is_leap y then 29 else 28)
      else if m = 4 \<or> m = 6 \<or> m = 9 \<or> m = 11 then 30 else 31)"

definition valid_date :: "date \<Rightarrow> bool" where
  "valid_date d =
     (1 \<le> year d \<and> year d \<le> 9999 \<and> 1 \<le> month d \<and> month d \<le> 12 \<and>
      1 \<le> day d \<and> day d \<le> days_in_month (year d) (month d))"

text \<open>
  Dates compare as the tuples \<^verbatim>\<open>(year, month, day)\<close>, which is how
  \<^verbatim>\<open>datetime.date\<close> orders them.
\<close>

definition date_lt :: "date \<Rightarrow> date \<Rightarrow> bool" where
  "date_lt a b =
     (year a < year b \<or>
      (year a = year b \<and> (month a < month b \<or> (month a = month b \<and> day a < day b))))"

definition date_le :: "date \<Rightarrow> date \<Rightarrow> bool" where
  "date_le a b = (date_lt a b \<or> a = b)"

text \<open>The calendar day before a date.\<close>

definition prev_day :: "date \<Rightarrow> date" where
  "prev_day d =
     (if 1 < day d then Date (year d) (month d) (day d - 1)
      else if 1 < month d then
        Date (year d) (month d - 1) (days_in_month (year d) (month d - 1))
      else Date (year d - 1) 12 31)"

text \<open>
  \<^verbatim>\<open>d - dt.timedelta(days=k)\<close>: the date \<open>k\<close> calendar days before \<open>d\<close>. The report
  runs on the current date, far from \<^verbatim>\<open>date.min\<close>, so the \<^verbatim>\<open>OverflowError\<close> of
  date arithmetic below year 1 is not part of the model.
\<close>

definition date_sub :: "date \<Rightarrow> nat \<Rightarrow> date" where
  "date_sub d k = (prev_day ^^ k) d"

section \<open>Numbers\<close>

text \<open>
  The model takes the columns of the data frame to be numeric (\<^verbatim>\<open>float64\<close> or
  \<^verbatim>\<open>int64\<close>): then \<^verbatim>\<open>Series.sum()\<close> returns a NumPy scalar, and \<^verbatim>\<open>/\<close> and \<^verbatim>\<open>*\<close> on
  such scalars follow IEEE 754, where dividing by zero gives \<^verbatim>\<open>inf\<close>, \<^verbatim>\<open>-inf\<close> or
  \<^verbatim>\<open>nan\<close> with a warning. A column that pandas holds as Python objects is outside the
  model; there the same division raises \<^verbatim>\<open>ZeroDivisionError\<close>. A finite value is
  modelled by the rational number it denotes: the rounding error of each floating-point
  operation, overflow and the sign of zero are not modelled. The three special values
  are constructors of their own.
\<close>

datatype fval = Fin rat | PInf | NInf | NaN

text \<open>\<^verbatim>\<open>a / b\<close> for two finite scalars (the operands are always column sums).\<close>

definition np_divide :: "rat \<Rightarrow> rat \<Rightarrow> fval" where
  "np_divide a b =
     (if b = 0 then (if a = 0 then NaN else if 0 < a then PInf else NInf)
      else Fin (a / b))"

definition inf_of_sign :: "rat \<Rightarrow> fval" where
  "inf_of_sign s = (if s = 0 then NaN else if 0 < s then PInf else NInf)"

text \<open>\<^verbatim>\<open>a * b\<close> on scalars: \<^verbatim>\<open>nan\<close> absorbs, \<^verbatim>\<open>0 * inf\<close> is \<^verbatim>\<open>nan\<close>.\<close>

fun np_multiply :: "fval \<Rightarrow> fval \<Rightarrow> fval" where
  "np_multiply NaN _ = NaN"
| "np_multiply _ NaN = NaN"
| "np_multiply (Fin a) (Fin b) = Fin (a * b)"
| "np_multiply (Fin a) PInf = inf_of_sign a"
| "np_multiply (Fin a) NInf = inf_of_sign (- a)"
| "np_multiply PInf (Fin b) = inf_of_sign b"
| "np_multiply NInf (Fin b) = inf_of_sign (- b)"
| "np_multiply PInf PInf = PInf"
| "np_multiply PInf NInf = NInf"
| "np_multiply NInf PInf = NInf"
| "np_multiply NInf NInf = PInf"

section \<open>The data frame\<close>

text \<open>
  One row of the frame returned by \<^verbatim>\<open>get_df\<close>: the columns the report reads. The
  frame has the default integer index, so a row's label is its position in the list.
\<close>

record row =
  end_date :: date
  cost :: rat
  install :: int
  pay_sum_1 :: rat
  pay_sum_3 :: rat
  pay_sum_7 :: rat
  roi_1 :: rat
  roi_3 :: rat
  roi_7 :: rat

type_synonym frame = "row list"

text \<open>\<^verbatim>\<open>frame[col].sum()\<close>; the sum of an empty column is 0.\<close>

definition col_sum :: "(row \<Rightarrow> rat) \<Rightarrow> frame \<Rightarrow> rat" where
  "col_sum col rows = sum_list (map col rows)"

text \<open>
  \<^verbatim>\<open>data[(data['end_date'].dt.date <= today.date()-dt.timedelta(days=a)) &
  (data['end_date'].dt.date >= today.date()-dt.timedelta(days=b))]\<close>
\<close>

definition window :: "frame \<Rightarrow> date \<Rightarrow> nat \<Rightarrow> nat \<Rightarrow> frame" where
  "window data today a b =
     filter (\<lambda>r. date_le (end_date r) (date_sub today a) \<and>
                 date_le (date_sub today b) (end_date r)) data"

definition this_month_data :: "frame \<Rightarrow> date \<Rightarrow> frame" where
  "this_month_data data today = filter (\<lambda>r. month (end_date r) = month today) data"

text \<open>
  \<^verbatim>\<open>first_day_of_month = dt.datetime.today().date().replace(day=1)\<close>,
  \<^verbatim>\<open>first_day_of_last_month = (today.date()-relativedelta(months=1)).replace(day=1)\<close>,
  and what the query of \<^verbatim>\<open>get_df\<close> asks the feed for: rows dated from that day up to
  today.
\<close>

definition first_day_of_month :: "date \<Rightarrow> date" where
  "first_day_of_month today = Date (year today) (month today) 1"

definition first_day_of_last_month :: "date \<Rightarrow> date" where
  "first_day_of_last_month today =
     (if 1 < month today then Date (year today) (month today - 1) 1
      else Date (year today - 1) 12 1)"

definition fetched :: "frame \<Rightarrow> date \<Rightarrow> bool" where
  "fetched data today =
     list_all (\<lambda>r. valid_date (end_date r) \<and>
                    date_le (first_day_of_last_month today) (end_date r) \<and>
                    date_le (end_date r) today) data"

definition three_one_coefficient :: "frame \<Rightarrow> date \<Rightarrow> fval" where
  "three_one_coefficient data today =
     np_divide (col_sum pay_sum_3 (window data today 3 17))
               (col_sum pay_sum_1 (window data today 3 17))"

definition seven_three_coefficient :: "frame \<Rightarrow> date \<Rightarrow> fval" where
  "seven_three_coefficient data today =
     np_divide (col_sum pay_sum_7 (window data today 7 21))
               (col_sum pay_sum_3 (window data today 7 21))"

definition total_1roi :: "frame \<Rightarrow> date \<Rightarrow> fval" where
  "total_1roi data today =
     np_divide (col_sum pay_sum_1 (this_month_data data today))
               (col_sum cost (this_month_data data today))"

definition predicted_7roi :: "frame \<Rightarrow> date \<Rightarrow> fval" where
  "predicted_7roi data today =
     np_multiply
       (np_multiply
          (np_divide (col_sum pay_sum_1 (this_month_data data today))
                     (col_sum cost (this_month_data data today)))
          (three_one_coefficient data today))
       (seven_three_coefficient data today)"

section \<open>Errors, rounding and text\<close>

text \<open>The exceptions the program can raise, as values.\<close>

datatype py_error = TypeError | KeyError | JSONDecodeError | AttributeError | ConnectionError

definition bind_err :: "py_error + 'a \<Rightarrow> ('a \<Rightarrow> py_error + 'b) \<Rightarrow> py_error + 'b" where
  "bind_err r f = (case r of Inl e \<Rightarrow> Inl e | Inr v \<Rightarrow> f v)"

text \<open>Rounding to the nearest integer, ties to the even one (\<^verbatim>\<open>round\<close>, \<^verbatim>\<open>rint\<close>).\<close>

definition rint :: "rat \<Rightarrow> int" where
  "rint q =
     (let f = \<lfloor>q\<rfloor>; r = q - of_int f
      in if r < 1 / 2 then f else if 1 / 2 < r then f + 1
         else if even f then f else f + 1)"

definition round_to :: "nat \<Rightarrow> rat \<Rightarrow> rat" where
  "round_to n q = of_int (rint (q * 10 ^ n)) / 10 ^ n"

text \<open>\<^verbatim>\<open>str(n)\<close> for an integer: its decimal digits.\<close>

definition digit_char :: "nat \<Rightarrow> char" where
  "digit_char n = ''0123456789'' ! n"

fun str_nat :: "nat \<Rightarrow> string" where
  "str_nat n = (if n < 10 then [digit_char n] else str_nat (n div 10) @ [digit_char (n mod 10)])"

declare str_nat.simps [simp del]

definition py_str :: "int \<Rightarrow> string" where
  "py_str i = (if i < 0 then CHR ''-'' # str_nat (nat (- i)) else str_nat (nat i))"

section \<open>Month-to-date 7-day ROI\<close>

text \<open>
  \<^verbatim>\<open>this_month_data['end_date'] <= f"{today.year}-{today.month}-{today.day-6}"\<close>
  compares timestamps with a string, which pandas first parses as a date. A string that
  names no calendar day (day 0, a negative day) makes the comparison raise.
\<close>

definition to_datetime :: "int \<Rightarrow> int \<Rightarrow> int \<Rightarrow> py_error + date" where
  "to_datetime y m d = (if valid_date (Date y m d) then Inr (Date y m d) else Inl TypeError)"

text \<open>
  \<^verbatim>\<open>round(x, 4)\<close> on a NumPy scalar rounds the binary floating-point number, which the
  rational model does not carry: 3/20000 as a float lies just below the tie and rounds
  to 0.0001, where the rational rounds to 0.0002. The rounding is therefore a parameter:
  \<open>round_nd n x\<close> stands for \<^verbatim>\<open>round(x, n)\<close>.
\<close>

definition total_7roi_calculator ::
  "(nat \<Rightarrow> fval \<Rightarrow> fval) \<Rightarrow> frame \<Rightarrow> date \<Rightarrow> py_error + fval" where
  "total_7roi_calculator round_nd data today =
     (if length (this_month_data data today) < 7 then Inr (Fin 0)
      else
        bind_err (to_datetime (year today) (month today) (day today - 6))
          (\<lambda>roi_observation_day.
             let roi_data = filter (\<lambda>r. date_le (end_date r) roi_observation_day)
                                   (this_month_data data today)
             in Inr (round_nd 4 (np_divide (col_sum pay_sum_7 roi_data)
                                           (col_sum cost roi_data)))))"

section \<open>The start of the run\<close>



section \<open>The weekly table\<close>

text \<open>
  One row of \<^verbatim>\<open>my_table\<close>. The script stores each cell as formatted text
  (\<^verbatim>\<open>"{:,}".format(...)\<close>, \<^verbatim>\<open>f"{x:.2%}"\<close>); the model keeps the value that is
  formatted. The date label \<^verbatim>\<open>f"{index_date.month}-{index_date.day}"\<close> is kept as text.
\<close>

record table_row =
  date_label :: string
  cost_cell :: rat
  install_cell :: int
  roi1_cell :: fval
  roi3_cell :: fval
  roi7_cell :: fval

text \<open>\<^verbatim>\<open>f"{index_date.month}-{index_date.day}"\<close>\<close>

definition date_label_of :: "date \<Rightarrow> string" where
  "date_label_of d = py_str (month d) @ ''-'' @ py_str (day d)"

text \<open>
  \<^verbatim>\<open>data[data['end_date']==index_day]\<close>: the rows of that day, each with its label.
\<close>

definition rows_on :: "frame \<Rightarrow> date \<Rightarrow> (nat \<times> row) list" where
  "rows_on data d = filter (\<lambda>(k, r). end_date r = d) (enumerate 0 data)"

text \<open>
  \<^verbatim>\<open>selection[col][k]\<close>: on the integer index this is a lookup by label, and a label
  that is not among the selected rows raises \<^verbatim>\<open>KeyError\<close>.
\<close>

definition getitem :: "(nat \<times> row) list \<Rightarrow> (row \<Rightarrow> 'a) \<Rightarrow> nat \<Rightarrow> py_error + 'a" where
  "getitem sel col k = (case map_of sel k of None \<Rightarrow> Inl KeyError | Some r \<Rightarrow> Inr (col r))"

definition index_three_one_coefficient :: "frame \<Rightarrow> date \<Rightarrow> nat \<Rightarrow> fval" where
  "index_three_one_coefficient data today i =
     np_divide (col_sum pay_sum_3 (window data today (7 - i + 2) (7 - i + 16)))
               (col_sum pay_sum_1 (window data today (7 - i + 2) (7 - i + 16)))"

definition index_seven_three_coefficient :: "frame \<Rightarrow> date \<Rightarrow> nat \<Rightarrow> fval" where
  "index_seven_three_coefficient data today i =
     np_divide (col_sum pay_sum_7 (window data today (7 - i + 6) (7 - i + 20)))
               (col_sum pay_sum_3 (window data today (7 - i + 6) (7 - i + 20)))"

text \<open>
  The body of \<^verbatim>\<open>for i in range(7)\<close>. \<^verbatim>\<open>pd.to_datetime(index_day).date()\<close> reads back
  the text of \<open>index_date\<close> and is \<open>index_date\<close> again.
\<close>

definition weekly_row :: "frame \<Rightarrow> date \<Rightarrow> nat \<Rightarrow> py_error + table_row" where
  "weekly_row data today i =
     (let index_date = date_sub today (7 - i);
          sel = rows_on data index_date
      in
      bind_err (getitem sel cost (7 - i)) (\<lambda>index_day_cost.
      bind_err (getitem sel install (7 - i)) (\<lambda>index_day_install.
      bind_err (getitem sel roi_1 (7 - i)) (\<lambda>index_day_1roi.
      bind_err
        (if date_le index_date (date_sub today 2)
         then bind_err (getitem sel roi_3 (7 - i)) (\<lambda>v. Inr (Fin v))
         else Inr (np_multiply (Fin index_day_1roi)
                               (index_three_one_coefficient data today i)))
        (\<lambda>index_predicted_3roi.
      bind_err
        (if date_le index_date (date_sub today 6)
         then bind_err (getitem sel roi_7 (7 - i)) (\<lambda>v. Inr (Fin v))
         else Inr (np_multiply
                     (np_multiply (Fin index_day_1roi)
                                  (index_three_one_coefficient data today i))
                     (index_seven_three_coefficient data today i)))
        (\<lambda>index_predicted_7roi.
      Inr \<lparr> date_label = date_label_of index_date,
            cost_cell = round_to 2 index_day_cost,
            install_cell = index_day_install,
            roi1_cell = Fin index_day_1roi,
            roi3_cell = index_predicted_3roi,
            roi7_cell = index_predicted_7roi \<rparr>))))))"

text \<open>The loop: rows are appended in the order of \<open>i\<close>; an exception ends it.\<close>

fun table_loop :: "frame \<Rightarrow> date \<Rightarrow> nat list \<Rightarrow> table_row list \<Rightarrow> py_error + table_row list" where
  "table_loop data today [] acc = Inr acc"
| "table_loop data today (i # rest) acc =
     (case weekly_row data today i of
        Inl e \<Rightarrow> Inl e
      | Inr one_row \<Rightarrow> table_loop data today rest (acc @ [one_row]))"

definition my_table :: "frame \<Rightarrow> date \<Rightarrow> py_error + table_row list" where
  "my_table data today = table_loop data today [0..<7] []"

section \<open>The DingTalk client\<close>

text \<open>
  JSON values: the payload a send operation posts and the body the server answers
  with. \<open>JObj\<close> holds the items of a dictionary, whose keys are distinct.
\<close>

datatype json =
    JNull
  | JBool bool
  | JInt int
  | JReal rat
  | JStr string
  | JArr "json list"
  | JObj "(string \<times> json) list"

text \<open>
  The values a caller can pass for \<^verbatim>\<open>mobiles\<close>: Python does not restrict the
  argument to lists.
\<close>

datatype pyval =
    PyNone
  | PyBool bool
  | PyInt int
  | PyStr string
  | PyList "string list"
  | PyTuple "string list"

text \<open>The truth value Python gives an object in \<^verbatim>\<open>if mobiles:\<close>.\<close>

fun truthy :: "pyval \<Rightarrow> bool" where
  "truthy PyNone = False"
| "truthy (PyBool b) = b"
| "truthy (PyInt n) = (n \<noteq> 0)"
| "truthy (PyStr s) = (s \<noteq> [])"
| "truthy (PyList xs) = (xs \<noteq> [])"
| "truthy (PyTuple xs) = (xs \<noteq> [])"

text \<open>\<^verbatim>\<open>isinstance(mobiles, list)\<close>\<close>

fun isinstance_list :: "pyval \<Rightarrow> bool" where
  "isinstance_list (PyList xs) = True"
| "isinstance_list _ = False"

text \<open>
  What \<^verbatim>\<open>request(url=..., json=payload, ...)\<close> comes back with: no response at all
  (the transport raised), or a response whose body parses as JSON or does not
  (\<open>None\<close>). The server is a function of the URL and the payload posted to it.
\<close>

datatype response = NoResponse | Response "json option"

type_synonym server = "string \<Rightarrow> json \<Rightarrow> response"

record bot =
  webhook_url :: string
  headers :: "(string \<times> string) list"

text \<open>
  \<^verbatim>\<open>hmac.new(key, msg, digestmod=hashlib.sha256).digest()\<close>, \<^verbatim>\<open>base64.b64encode\<close>,
  \<^verbatim>\<open>urllib.parse.quote_plus\<close> and \<^verbatim>\<open>str.encode('utf-8')\<close> are library functions
  outside the repository; the model takes them as parameters.
\<close>

record libs =
  hmac_sha256 :: "string \<Rightarrow> string \<Rightarrow> string"
  b64encode :: "string \<Rightarrow> string"
  quote_plus :: "string \<Rightarrow> string"
  encode_utf8 :: "string \<Rightarrow> string"

definition get_sign :: "libs \<Rightarrow> string \<Rightarrow> string \<Rightarrow> string" where
  "get_sign lib secret timestamp =
     (let string_to_sign = encode_utf8 lib (timestamp @ [CHR 0x0A] @ secret);
          hmac_code = hmac_sha256 lib (encode_utf8 lib secret) string_to_sign
      in quote_plus lib (b64encode lib hmac_code))"

definition default_headers :: "(string \<times> string) list" where
  "default_headers = [(''Content-Type'', ''application/json''), (''Charset'', ''UTF-8'')]"

text \<open>
  \<^verbatim>\<open>DingTalkBot.__init__\<close>; \<open>now\<close> is the reading of \<^verbatim>\<open>time.time()\<close> in seconds.
  \<^verbatim>\<open>if secret:\<close> is false for \<^verbatim>\<open>None\<close> and for the empty string.
\<close>

definition DingTalkBot_init :: "libs \<Rightarrow> rat \<Rightarrow> string option \<Rightarrow> string \<Rightarrow> bot" where
  "DingTalkBot_init lib now secret url =
     (case secret of
        None \<Rightarrow> \<lparr> webhook_url = url, headers = default_headers \<rparr>
      | Some s \<Rightarrow>
          if s \<noteq> [] then
            (let timestamp = py_str (rint (now * 1000));
                 sign = get_sign lib s timestamp
             in \<lparr> webhook_url = url @ ''&timestamp='' @ timestamp @ ''&sign='' @ sign,
                  headers = default_headers \<rparr>)
          else \<lparr> webhook_url = url, headers = default_headers \<rparr>)"

text \<open>\<^verbatim>\<open>x == 0\<close> for the value \<^verbatim>\<open>.get("errcode")\<close> returns (\<open>None\<close>: no such key).\<close>

fun py_eq_zero :: "json option \<Rightarrow> bool" where
  "py_eq_zero (Some (JInt n)) = (n = 0)"
| "py_eq_zero (Some (JReal q)) = (q = 0)"
| "py_eq_zero (Some (JBool b)) = (\<not> b)"
| "py_eq_zero _ = False"

text \<open>
  \<^verbatim>\<open>response.json().get("errcode") == 0\<close>: \<^verbatim>\<open>.json()\<close> raises on a body that is not
  JSON, and only a dictionary has \<^verbatim>\<open>.get\<close>.
\<close>

fun errcode_is_zero :: "response \<Rightarrow> py_error + bool" where
  "errcode_is_zero NoResponse = Inl ConnectionError"
| "errcode_is_zero (Response None) = Inl JSONDecodeError"
| "errcode_is_zero (Response (Some (JObj items))) = Inr (py_eq_zero (map_of items ''errcode''))"
| "errcode_is_zero (Response (Some _)) = Inl AttributeError"

text \<open>
  The last lines of every send operation: post the payload, return whether the
  server accepted it. The second component lists the network calls made.
\<close>

type_synonym sent = "(py_error + bool) \<times> (string \<times> json) list"

definition post_payload :: "server \<Rightarrow> bot \<Rightarrow> json \<Rightarrow> sent" where
  "post_payload srv self payload =
     (errcode_is_zero (srv (webhook_url self) payload), [(webhook_url self, payload)])"

definition send_text :: "server \<Rightarrow> bot \<Rightarrow> string \<Rightarrow> string \<Rightarrow> pyval \<Rightarrow> bool \<Rightarrow> sent" where
  "send_text srv self title content mobiles is_at_all =
     (if truthy mobiles then
        (if isinstance_list mobiles then
           (case mobiles of
              PyList ms \<Rightarrow>
                post_payload srv self
                  (JObj [(''msgtype'', JStr ''text''),
                         (''title'', JStr title),
                         (''text'', JObj [(''content'',
                             JStr (foldl (\<lambda>c mobile. c @ ''@'' @ mobile) content ms))]),
                         (''at'', JObj [(''atMobiles'', JArr (map JStr ms)),
                                        (''isAtAll'', JBool False)])])
            | _ \<Rightarrow> (Inl TypeError, []))
         else (Inl TypeError, []))
      else
        post_payload srv self
          (JObj [(''msgtype'', JStr ''text''),
                 (''title'', JStr title),
                 (''text'', JObj [(''content'', JStr content)]),
                 (''at'', JObj [(''atMobiles'', JStr []), (''isAtAll'', JBool is_at_all)])]))"

definition json_of_opt :: "string option \<Rightarrow> json" where
  "json_of_opt v = (case v of None \<Rightarrow> JNull | Some s \<Rightarrow> JStr s)"

definition send_link :: "server \<Rightarrow> bot \<Rightarrow> string \<Rightarrow> string \<Rightarrow> string \<Rightarrow> string option \<Rightarrow> sent" where
  "send_link srv self title body message_url pic_url =
     post_payload srv self
       (JObj [(''msgtype'', JStr ''link''),
              (''link'', JObj [(''title'', JStr title),
                               (''text'', JStr body),
                               (''picUrl'', json_of_opt pic_url),
                               (''messageUrl'', JStr message_url)])])"

definition send_markdown :: "server \<Rightarrow> bot \<Rightarrow> string \<Rightarrow> string \<Rightarrow> pyval \<Rightarrow> bool \<Rightarrow> sent" where
  "send_markdown srv self title body mobiles is_at_all =
     (if truthy mobiles then
        (if isinstance_list mobiles then
           (case mobiles of
              PyList ms \<Rightarrow>
                post_payload srv self
                  (JObj [(''msgtype'', JStr ''markdown''),
                         (''markdown'', JObj [(''title'', JStr title),
                             (''text'', JStr (foldl (\<lambda>c mobile. c @ '' @'' @ mobile) body ms))]),
                         (''at'', JObj [(''atMobiles'', JArr (map JStr ms)),
                                        (''isAtAll'', JBool False)])])
            | _ \<Rightarrow> (Inl TypeError, []))
         else (Inl TypeError, []))
      else
        post_payload srv self
          (JObj [(''msgtype'', JStr ''markdown''),
                 (''markdown'', JObj [(''title'', JStr title), (''text'', JStr body)]),
                 (''at'', JObj [(''atMobiles'', JStr []), (''isAtAll'', JBool is_at_all)])]))"

definition send_action_card_single ::
  "server \<Rightarrow> bot \<Rightarrow> string \<Rightarrow> string \<Rightarrow> string \<Rightarrow> string \<Rightarrow> int \<Rightarrow> sent" where
  "send_action_card_single srv self title body single_title single_url btn_orientation =
     post_payload srv self
       (JObj [(''msgtype'', JStr ''actionCard''),
              (''actionCard'', JObj [(''title'', JStr title),
                                     (''text'', JStr body),
                                     (''singleTitle'', JStr single_title),
                                     (''singleURL'', JStr single_url),
                                     (''btnOrientation'', JInt btn_orientation)])])"

text \<open>\<^verbatim>\<open>d.get(key)\<close> on a dictionary: \<^verbatim>\<open>None\<close> when the key is missing.\<close>

definition dict_get :: "(string \<times> json) list \<Rightarrow> string \<Rightarrow> json" where
  "dict_get d k = (case map_of d k of None \<Rightarrow> JNull | Some v \<Rightarrow> v)"

definition send_action_card_split ::
  "server \<Rightarrow> bot \<Rightarrow> string \<Rightarrow> string \<Rightarrow> (string \<times> json) list list \<Rightarrow> int \<Rightarrow> sent" where
  "send_action_card_split srv self title body btns btn_orientation =
     post_payload srv self
       (JObj [(''msgtype'', JStr ''actionCard''),
              (''actionCard'', JObj [(''title'', JStr title),
                                     (''text'', JStr body),
                                     (''btns'', JArr (map (\<lambda>btn.
                                         JObj [(''title'', dict_get btn ''title''),
                                               (''actionURL'', dict_get btn ''action_url'')]) btns)),
                                     (''btnOrientation'', JInt btn_orientation)])])"

definition send_feed_card :: "server \<Rightarrow> bot \<Rightarrow> (string \<times> json) list list \<Rightarrow> sent" where
  "send_feed_card srv self links_msg =
     post_payload srv self
       (JObj [(''msgtype'', JStr ''feedCard''),
              (''feedCard'', JObj [(''links'', JArr (map (\<lambda>link.
                                       JObj [(''title'', dict_get link ''title''),
                                             (''messageURL'', dict_get link ''messageURL''),
                                             (''picURL'', dict_get link ''picURL'')]) links_msg))])])"

definition send_image :: "server \<Rightarrow> bot \<Rightarrow> string \<Rightarrow> pyval \<Rightarrow> bool \<Rightarrow> sent" where
  "send_image srv self image_base64 mobiles is_at_all =
     (if truthy mobiles then
        (if isinstance_list mobiles then
           (case mobiles of
              PyList ms \<Rightarrow>
                post_payload srv self
                  (JObj [(''msgtype'', JStr ''image''),
                         (''image'', JObj [(''base64'',
                             JStr (foldl (\<lambda>c mobile. c @ '' @'' @ mobile) image_base64 ms))]),
                         (''at'', JObj [(''atMobiles'', JArr (map JStr ms)),
                                        (''isAtAll'', JBool False)])])
            | _ \<Rightarrow> (Inl TypeError, []))
         else (Inl TypeError, []))
      else
        post_payload srv self
          (JObj [(''msgtype'', JStr ''image''),
                 (''image'', JObj [(''base64'', JStr image_base64)]),
                 (''at'', JObj [(''atMobiles'', JStr []), (''isAtAll'', JBool is_at_all)])]))"

section \<open>Windows and ratios, in the words of the specification\<close>

text \<open>
  The rows dated in the interval from \<open>lo\<close> to \<open>hi\<close>, the ratio of two column sums
  over a set of rows, and the order of the feed the weekly table relies on: the row at
  position \<open>k\<close> is dated \<open>k\<close> days before the as-of date, for \<open>k\<close> from 1 to 7.
\<close>

definition dated_between :: "frame \<Rightarrow> date \<Rightarrow> date \<Rightarrow> frame" where
  "dated_between data lo hi =
     filter (\<lambda>r. date_le lo (end_date r) \<and> date_le (end_date r) hi) data"

text \<open>
  The month-to-date rows: dated from the first day of the as-of month up to the as-of
  date.
\<close>

definition month_to_date :: "frame \<Rightarrow> date \<Rightarrow> frame" where
  "month_to_date data today = dated_between data (first_day_of_month today) today"

definition ratio :: "(row \<Rightarrow> rat) \<Rightarrow> (row \<Rightarrow> rat) \<Rightarrow> frame \<Rightarrow> fval" where
  "ratio num den rows = np_divide (col_sum num rows) (col_sum den rows)"

definition feed_newest_first :: "frame \<Rightarrow> date \<Rightarrow> bool" where
  "feed_newest_first data today =
     list_all (\<lambda>k. k < length data \<and> end_date (data ! k) = date_sub today k) [1..<8]"

section \<open>Fixtures\<close>

text \<open>A server that accepts every message, one whose answer is not JSON, and a client.\<close>

definition accepting_server :: server where
  "accepting_server url payload =
     Response (Some (JObj [(''errcode'', JInt 0), (''errmsg'', JStr ''ok'')]))"

definition garbled_server :: server where
  "garbled_server url payload = Response None"

definition example_bot :: bot where
  "example_bot = \<lparr> webhook_url = ''https://example.invalid/robot/send?access_token=t'',
                    headers = default_headers \<rparr>"

text \<open>
  Eight days of data, newest first, for a report on 2024-05-20; one row whose 1-day
  and 3-day revenue is zero; the eight days with a row of April after them; and seven
  days of May for a report dated 2024-05-03.
\<close>

definition week_today :: date where
  "week_today = Date 2024 5 20"

definition week_row :: "date \<Rightarrow> row" where
  "week_row d =
     \<lparr> end_date = d, cost = 1000, install = 100, pay_sum_1 = 50, pay_sum_3 = 70,
       pay_sum_7 = 90, roi_1 = 1 / 20, roi_3 = 7 / 100, roi_7 = 9 / 100 \<rparr>"

definition week_data :: frame where
  "week_data =
     map week_row
       [Date 2024 5 20, Date 2024 5 19, Date 2024 5 18, Date 2024 5 17,
        Date 2024 5 16, Date 2024 5 15, Date 2024 5 14, Date 2024 5 13]"

definition zero_data :: frame where
  "zero_data =
     [\<lparr> end_date = Date 2024 5 10, cost = 1000, install = 100, pay_sum_1 = 0,
        pay_sum_3 = 0, pay_sum_7 = 90, roi_1 = 0, roi_3 = 0, roi_7 = 9 / 100 \<rparr>]"

definition span_data :: frame where
  "span_data =
     week_data @
     [\<lparr> end_date = Date 2024 4 30, cost = 1000, install = 100, pay_sum_1 = 100,
        pay_sum_3 = 140, pay_sum_7 = 200, roi_1 = 1 / 10, roi_3 = 7 / 50, roi_7 = 1 / 5 \<rparr>]"

definition early_today :: date where
  "early_today = Date 2024 5 3"

definition early_data :: frame where
  "early_data =
     map week_row
       [Date 2024 5 7, Date 2024 5 6, Date 2024 5 5, Date 2024 5 4,
        Date 2024 5 3, Date 2024 5 2, Date 2024 5 1]"

text \<open>
  Stand-ins for library functions, for concrete runs: a rounding of the rational value
  (ties to even) and the functions of the signature.
\<close>

definition exact_round :: "nat \<Rightarrow> fval \<Rightarrow> fval" where
  "exact_round n v = (case v of Fin q \<Rightarrow> Fin (round_to n q) | _ \<Rightarrow> v)"

definition toy_libs :: libs where
  "toy_libs = \<lparr> hmac_sha256 = (\<lambda>k m. m @ ''/'' @ k), b64encode = (\<lambda>b. ''b64:'' @ b),
                 quote_plus = (\<lambda>b. ''q:'' @ b), encode_utf8 = (\<lambda>s. s) \<rparr>"

section \<open>The result contract, in the words of the specification\<close>

text \<open>
  A response is accepted when it parses as JSON and carries the status code 0, and
  rejected when it parses as JSON and carries any other status, or none. The contract
  of a send operation, as the program keeps it: true exactly on an accepted response,
  false exactly on a rejected one, and \<^verbatim>\<open>JSONDecodeError\<close> on a body that is not JSON.
\<close>

definition accepted :: "response \<Rightarrow> bool" where
  "accepted r =
     (case r of
        Response (Some (JObj items)) \<Rightarrow> py_eq_zero (map_of items ''errcode'')
      | _ \<Rightarrow> False)"

definition rejected :: "response \<Rightarrow> bool" where
  "rejected r =
     (case r of
        Response (Some (JObj items)) \<Rightarrow> \<not> py_eq_zero (map_of items ''errcode'')
      | _ \<Rightarrow> False)"

definition result_contract :: "py_error + bool \<Rightarrow> response \<Rightarrow> bool" where
  "result_contract res r =
     ((res = Inr True) = accepted r \<and>
      (res = Inr False) = rejected r \<and>
      (r = Response None \<longrightarrow> res = Inl JSONDecodeError))"

section \<open>Properties\<close>

subsection \<open>Mentions\<close>

lemma foldl_append_mentions:
  "foldl (\<lambda>c mobile. c @ f mobile) body ms = body @ concat (map f ms)"
  by (induction ms arbitrary: body) simp_all

text \<open>
  Claim C8. \<^verbatim>\<open>send_text\<close> called with a non-empty list of mobiles posts exactly one
  payload: its body text is the content followed by \<^verbatim>\<open>@mobile\<close> for each mobile in
  order, \<^verbatim>\<open>atMobiles\<close> is the list of mobiles and \<^verbatim>\<open>isAtAll\<close> is false, whatever
  \<^verbatim>\<open>is_at_all\<close> was passed. The witness is the case of the specification:
  \<^verbatim>\<open>mobiles=["13800000000"]\<close>, \<^verbatim>\<open>content="A"\<close>.
\<close>

theorem send_text_mentions:
  "ms \<noteq> [] \<Longrightarrow>
   snd (send_text srv self title content (PyList ms) is_at_all) =
     [(webhook_url self,
       JObj [(''msgtype'', JStr ''text''),
             (''title'', JStr title),
             (''text'', JObj [(''content'',
                JStr (content @ concat (map (\<lambda>mobile. ''@'' @ mobile) ms)))]),
             (''at'', JObj [(''atMobiles'', JArr (map JStr ms)),
                            (''isAtAll'', JBool False)])])]"
  by (simp add: send_text_def post_payload_def foldl_append_mentions)

theorem send_text_mentions_witness:
  "[''13800000000''] \<noteq> [] \<and>
   snd (send_text accepting_server example_bot ''t'' ''A'' (PyList [''13800000000'']) True) =
     [(webhook_url example_bot,
       JObj [(''msgtype'', JStr ''text''),
             (''title'', JStr ''t''),
             (''text'', JObj [(''content'', JStr ''A@13800000000'')]),
             (''at'', JObj [(''atMobiles'', JArr [JStr ''13800000000'']),
                            (''isAtAll'', JBool False)])])]"
  using send_text_mentions
    [of "[''13800000000'']" accepting_server example_bot "''t''" "''A''" True]
  by simp

text \<open>
  Claim C10. \<^verbatim>\<open>send_image\<close> called with a non-empty list of mobiles posts one payload
  whose \<^verbatim>\<open>image.base64\<close> field is the supplied string with \<^verbatim>\<open>" @mobile"\<close> appended
  for each mobile in order (the mention text goes into the image data itself), with
  \<^verbatim>\<open>atMobiles\<close> the list of mobiles and \<^verbatim>\<open>isAtAll\<close> false.
\<close>

theorem send_image_mentions:
  "ms \<noteq> [] \<Longrightarrow>
   snd (send_image srv self image_base64 (PyList ms) is_at_all) =
     [(webhook_url self,
       JObj [(''msgtype'', JStr ''image''),
             (''image'', JObj [(''base64'',
                JStr (image_base64 @ concat (map (\<lambda>mobile. '' @'' @ mobile) ms)))]),
             (''at'', JObj [(''atMobiles'', JArr (map JStr ms)),
                            (''isAtAll'', JBool False)])])]"
  by (simp add: send_image_def post_payload_def foldl_append_mentions)

theorem send_image_mentions_witness:
  "[''138'', ''139''] \<noteq> [] \<and>
   snd (send_image accepting_server example_bot ''aGk='' (PyList [''138'', ''139'']) True) =
     [(webhook_url example_bot,
       JObj [(''msgtype'', JStr ''image''),
             (''image'', JObj [(''base64'', JStr ''aGk= @138 @139'')]),
             (''at'', JObj [(''atMobiles'', JArr [JStr ''138'', JStr ''139'']),
                            (''isAtAll'', JBool False)])])]"
  using send_image_mentions
    [of "[''138'', ''139'']" accepting_server example_bot "''aGk=''" True]
  by simp

subsection \<open>The signed URL\<close>

lemma py_str_1500: "py_str (rint 1500) = ''1500''"
  by (simp add: py_str_def rint_def str_nat.simps digit_char_def)

text \<open>
  Claim C2. A client built with a non-empty secret uses the webhook URL followed by
  \<^verbatim>\<open>&timestamp=\<close>, the clock reading in milliseconds, \<^verbatim>\<open>&sign=\<close> and the signature:
  the URL-quoted Base64 text of the HMAC-SHA256 whose key is the encoded secret and
  whose message is the encoded text of the timestamp, a newline and the secret. A
  client built without a secret uses the webhook URL as it is.
\<close>

theorem signed_url:
  "(secret \<noteq> [] \<longrightarrow>
      webhook_url (DingTalkBot_init lib now (Some secret) url) =
        url @ ''&timestamp='' @ py_str (rint (now * 1000)) @ ''&sign='' @
        quote_plus lib (b64encode lib (hmac_sha256 lib (encode_utf8 lib secret)
          (encode_utf8 lib (py_str (rint (now * 1000)) @ [CHR 0x0A] @ secret))))) \<and>
   webhook_url (DingTalkBot_init lib now None url) = url"
  by (simp add: DingTalkBot_init_def get_sign_def Let_def)

theorem signed_url_witness:
  "''SEC'' \<noteq> [] \<and>
   webhook_url
     (DingTalkBot_init toy_libs (3 / 2) (Some ''SEC'') ''https://h/send?access_token=t'') =
     ''https://h/send?access_token=t&timestamp=1500&sign=q:b64:1500'' @ [CHR 0x0A] @
     ''SEC/SEC''"
  using signed_url [of "''SEC''" toy_libs "3 / 2" "''https://h/send?access_token=t''"]
  by (simp add: toy_libs_def py_str_1500)

subsection \<open>The mobiles argument\<close>

text \<open>
  Claim C7, as the program has it. A value of \<^verbatim>\<open>mobiles\<close> that Python counts as true
  and that is not a list makes \<^verbatim>\<open>send_text\<close>, \<^verbatim>\<open>send_markdown\<close> and
  \<^verbatim>\<open>send_image\<close> raise \<^verbatim>\<open>TypeError\<close> with no network call made. A value that Python
  counts as false, a list or not, is taken as no mentions: the message is posted with
  \<^verbatim>\<open>atMobiles\<close> the empty string and \<^verbatim>\<open>isAtAll\<close> as passed.
\<close>

theorem non_list_mobiles:
  "(truthy mobiles \<and> \<not> isinstance_list mobiles \<longrightarrow>
      send_text srv self title content mobiles is_at_all = (Inl TypeError, []) \<and>
      send_markdown srv self title content mobiles is_at_all = (Inl TypeError, []) \<and>
      send_image srv self content mobiles is_at_all = (Inl TypeError, [])) \<and>
   (\<not> truthy mobiles \<longrightarrow>
      send_text srv self title content mobiles is_at_all =
        post_payload srv self
          (JObj [(''msgtype'', JStr ''text''),
                 (''title'', JStr title),
                 (''text'', JObj [(''content'', JStr content)]),
                 (''at'', JObj [(''atMobiles'', JStr []), (''isAtAll'', JBool is_at_all)])]) \<and>
      send_markdown srv self title content mobiles is_at_all =
        post_payload srv self
          (JObj [(''msgtype'', JStr ''markdown''),
                 (''markdown'', JObj [(''title'', JStr title), (''text'', JStr content)]),
                 (''at'', JObj [(''atMobiles'', JStr []), (''isAtAll'', JBool is_at_all)])]) \<and>
      send_image srv self content mobiles is_at_all =
        post_payload srv self
          (JObj [(''msgtype'', JStr ''image''),
                 (''image'', JObj [(''base64'', JStr content)]),
                 (''at'', JObj [(''atMobiles'', JStr []), (''isAtAll'', JBool is_at_all)])]))"
  by (cases mobiles) (simp_all add: send_text_def send_markdown_def send_image_def)

theorem non_list_mobiles_witness:
  "truthy (PyStr ''13800000000'') \<and> \<not> isinstance_list (PyStr ''13800000000'') \<and>
   send_text accepting_server example_bot ''t'' ''A'' (PyStr ''13800000000'') False =
     (Inl TypeError, []) \<and>
   send_markdown accepting_server example_bot ''t'' ''A'' (PyStr ''13800000000'') False =
     (Inl TypeError, []) \<and>
   send_image accepting_server example_bot ''A'' (PyStr ''13800000000'') False =
     (Inl TypeError, []) \<and>
   \<not> truthy (PyInt 0) \<and>
   send_markdown accepting_server example_bot ''t'' ''A'' (PyInt 0) True =
     (Inr True,
      [(webhook_url example_bot,
        JObj [(''msgtype'', JStr ''markdown''),
              (''markdown'', JObj [(''title'', JStr ''t''), (''text'', JStr ''A'')]),
              (''at'', JObj [(''atMobiles'', JStr []), (''isAtAll'', JBool True)])])])"
  using non_list_mobiles
    [of "PyStr ''13800000000''" accepting_server example_bot "''t''" "''A''" False]
    non_list_mobiles [of "PyInt 0" accepting_server example_bot "''t''" "''A''" True]
  by (simp add: post_payload_def accepting_server_def)

text \<open>
  The claim as stated fails for a value that is not a list and that Python counts as
  false: with the empty string for \<^verbatim>\<open>mobiles\<close>, \<^verbatim>\<open>send_text\<close> raises nothing, posts a
  payload whose \<^verbatim>\<open>atMobiles\<close> is the empty string, and returns true.
\<close>

theorem falsy_non_list_mobiles_sent:
  "\<not> isinstance_list (PyStr []) \<and>
   send_text accepting_server example_bot ''t'' ''A'' (PyStr []) False =
     (Inr True,
      [(webhook_url example_bot,
        JObj [(''msgtype'', JStr ''text''), (''title'', JStr ''t''),
              (''text'', JObj [(''content'', JStr ''A'')]),
              (''at'', JObj [(''atMobiles'', JStr []), (''isAtAll'', JBool False)])])])"
  by (simp add: send_text_def post_payload_def accepting_server_def)

subsection \<open>The result of a send operation\<close>

lemma errcode_is_zero_contract: "result_contract (errcode_is_zero r) r"
  by (cases r rule: errcode_is_zero.cases)
     (simp_all add: result_contract_def accepted_def rejected_def)

lemma post_payload_const: "fst (post_payload (\<lambda>u p. r) self payload) = errcode_is_zero r"
  by (simp add: post_payload_def)

text \<open>
  Claim C6, as the program has it. Whatever response \<open>r\<close> the server gives, each of
  the seven send operations returns true exactly when \<open>r\<close> parses as JSON with status
  code 0 and false exactly when it parses as JSON with another status (or none); on a
  body that is not JSON the operation raises \<^verbatim>\<open>JSONDecodeError\<close>. For the three
  operations that take \<^verbatim>\<open>mobiles\<close> this is for a value they accept.
\<close>

theorem send_result_contract:
  "result_contract (fst (send_link (\<lambda>u p. r) self title body message_url pic_url)) r \<and>
   result_contract
     (fst (send_action_card_single (\<lambda>u p. r) self title body single_title single_url
             btn_orientation)) r \<and>
   result_contract
     (fst (send_action_card_split (\<lambda>u p. r) self title body btns btn_orientation)) r \<and>
   result_contract (fst (send_feed_card (\<lambda>u p. r) self links_msg)) r \<and>
   ((truthy mobiles \<longrightarrow> isinstance_list mobiles) \<longrightarrow>
      result_contract (fst (send_text (\<lambda>u p. r) self title body mobiles is_at_all)) r \<and>
      result_contract (fst (send_markdown (\<lambda>u p. r) self title body mobiles is_at_all)) r \<and>
      result_contract (fst (send_image (\<lambda>u p. r) self body mobiles is_at_all)) r)"
  by (cases mobiles)
     (simp_all add: send_link_def send_action_card_single_def send_action_card_split_def
        send_feed_card_def send_text_def send_markdown_def send_image_def
        post_payload_const errcode_is_zero_contract)

theorem send_result_contract_witness:
  "accepted (Response (Some (JObj [(''errcode'', JInt 0)]))) \<and>
   \<not> truthy PyNone \<and>
   fst (send_link (\<lambda>u p. Response (Some (JObj [(''errcode'', JInt 0)])))
          example_bot ''t'' ''b'' ''m'' None) = Inr True \<and>
   fst (send_text (\<lambda>u p. Response (Some (JObj [(''errcode'', JInt 0)])))
          example_bot ''t'' ''b'' PyNone False) = Inr True"
  using send_result_contract
    [of "Response (Some (JObj [(''errcode'', JInt 0)]))" example_bot
        "''t''" "''b''" "''m''" None "''s''" "''u''" 0 "[]" "[]" PyNone False]
  by (simp add: result_contract_def accepted_def)

text \<open>
  The claim as stated fails on a body that is not JSON: \<^verbatim>\<open>send_text\<close> does not return
  false there, it raises.
\<close>

theorem not_json_raises:
  "fst (send_text garbled_server example_bot ''t'' ''A'' PyNone False) = Inl JSONDecodeError \<and>
   fst (send_text garbled_server example_bot ''t'' ''A'' PyNone False) \<noteq> Inr False"
  by (simp add: send_text_def post_payload_def garbled_server_def)

subsection \<open>The weekly table\<close>

lemma date_sub_add: "date_sub (date_sub d a) b = date_sub d (a + b)"
  by (simp add: date_sub_def funpow_add add.commute [of a b])

lemma map_of_filter_enumerate:
  "map_of (filter (\<lambda>(k, r). P r) (enumerate n xs)) k =
     (if n \<le> k \<and> k < n + length xs \<and> P (xs ! (k - n)) then Some (xs ! (k - n)) else None)"
proof (induction xs arbitrary: n)
  case Nil
  show ?case by simp
next
  case (Cons x xs)
  show ?case
  proof (cases "k = n")
    case True
    show ?thesis using Cons.IH [of "Suc n"] by (simp add: True)
  next
    case False
    show ?thesis using Cons.IH [of "Suc n"] False by (auto simp: nth_Cons' Suc_diff_le)
  qed
qed

lemma getitem_rows_on:
  "getitem (rows_on data d) col k =
     (if k < length data \<and> end_date (data ! k) = d then Inr (col (data ! k)) else Inl KeyError)"
  by (simp add: getitem_def rows_on_def map_of_filter_enumerate)

lemma window_dated_between:
  "window data today a b = dated_between data (date_sub today b) (date_sub today a)"
  by (simp add: window_def dated_between_def conj_commute)

lemma weekly_row_eq:
  "weekly_row data today i =
     (if 7 - i < length data \<and> end_date (data ! (7 - i)) = date_sub today (7 - i) then
        Inr \<lparr> date_label = date_label_of (date_sub today (7 - i)),
              cost_cell = round_to 2 (cost (data ! (7 - i))),
              install_cell = install (data ! (7 - i)),
              roi1_cell = Fin (roi_1 (data ! (7 - i))),
              roi3_cell =
                (if date_le (date_sub today (7 - i)) (date_sub today 2)
                 then Fin (roi_3 (data ! (7 - i)))
                 else np_multiply (Fin (roi_1 (data ! (7 - i))))
                        (index_three_one_coefficient data today i)),
              roi7_cell =
                (if date_le (date_sub today (7 - i)) (date_sub today 6)
                 then Fin (roi_7 (data ! (7 - i)))
                 else np_multiply
                        (np_multiply (Fin (roi_1 (data ! (7 - i))))
                           (index_three_one_coefficient data today i))
                        (index_seven_three_coefficient data today i)) \<rparr>
      else Inl KeyError)"
  by (simp add: weekly_row_def Let_def getitem_rows_on bind_err_def)

lemma table_loop_Inr:
  "table_loop data today js rows = Inr tbl \<Longrightarrow>
   tbl = rows @ map (\<lambda>i. projr (weekly_row data today i)) js \<and>
   (\<forall>i \<in> set js. weekly_row data today i = Inr (projr (weekly_row data today i)))"
proof (induction js arbitrary: rows)
  case Nil
  then show ?case by simp
next
  case (Cons j js)
  show ?case
  proof (cases "weekly_row data today j")
    case (Inl e)
    with Cons.prems show ?thesis by simp
  next
    case (Inr b)
    with Cons.prems have "table_loop data today js (rows @ [b]) = Inr tbl" by simp
    from Cons.IH [OF this] Inr show ?thesis by simp
  qed
qed

lemma table_loop_ok:
  "(\<forall>i \<in> set js. weekly_row data today i = Inr (projr (weekly_row data today i))) \<Longrightarrow>
   table_loop data today js rows = Inr (rows @ map (\<lambda>i. projr (weekly_row data today i)) js)"
proof (induction js arbitrary: rows)
  case Nil
  show ?case by simp
next
  case (Cons j js)
  have "weekly_row data today j = Inr (projr (weekly_row data today j))"
    using Cons.prems by simp
  moreover have "table_loop data today js (rows @ [projr (weekly_row data today j)]) =
      Inr ((rows @ [projr (weekly_row data today j)]) @ map (\<lambda>i. projr (weekly_row data today i)) js)"
    using Cons.prems by (intro Cons.IH) simp
  ultimately show ?case by (cases "weekly_row data today j") auto
qed


lemma date_sub_Suc: "date_sub d (Suc k) = prev_day (date_sub d k)"
  by (simp add: date_sub_def)

lemma prev_day_lt: "date_lt (prev_day d) d"
  by (cases d) (simp add: prev_day_def date_lt_def)

lemma date_lt_trans: "date_lt a b \<Longrightarrow> date_lt b c \<Longrightarrow> date_lt a c"
  by (auto simp: date_lt_def)

lemma date_lt_irrefl: "\<not> date_lt a a"
  by (simp add: date_lt_def)

lemma date_sub_lt_add: "date_lt (date_sub d (a + Suc n)) (date_sub d a)"
proof (induction n)
  case 0
  show ?case by (simp add: date_sub_Suc prev_day_lt)
next
  case (Suc n)
  have "date_lt (date_sub d (a + Suc (Suc n))) (date_sub d (a + Suc n))"
    by (simp add: date_sub_Suc prev_day_lt)
  with Suc show ?case by (blast intro: date_lt_trans)
qed

lemma date_sub_lt: "a < b \<Longrightarrow> date_lt (date_sub d b) (date_sub d a)"
  using date_sub_lt_add [of d a "b - a - 1"] by simp

lemma date_sub_le_iff: "date_le (date_sub d a) (date_sub d b) \<longleftrightarrow> b \<le> a"
proof
  assume le: "date_le (date_sub d a) (date_sub d b)"
  show "b \<le> a"
  proof (rule ccontr)
    assume "\<not> b \<le> a"
    then have lt: "date_lt (date_sub d b) (date_sub d a)" by (simp add: date_sub_lt)
    from le have "date_lt (date_sub d a) (date_sub d b) \<or> date_sub d a = date_sub d b"
      by (simp add: date_le_def)
    then show False
    proof
      assume "date_lt (date_sub d a) (date_sub d b)"
      with lt have "date_lt (date_sub d b) (date_sub d b)" by (rule date_lt_trans)
      then show False by (simp add: date_lt_irrefl)
    next
      assume "date_sub d a = date_sub d b"
      with lt show False by (simp add: date_lt_irrefl)
    qed
  qed
next
  assume "b \<le> a"
  then have "b < a \<or> a = b" by auto
  then show "date_le (date_sub d a) (date_sub d b)"
    by (auto simp: date_le_def date_sub_lt)
qed

lemma upt_0_7: "[0..<7] = [0, 1, 2, 3, 4, 5, 6]"
  by (simp add: upt_rec)

lemma upt_1_8: "[1..<8] = [1, 2, 3, 4, 5, 6, 7]"
  by (simp add: upt_rec)

lemma feed_row:
  assumes "feed_newest_first data today" and "i < 7"
  shows "7 - i < length data \<and> end_date (data ! (7 - i)) = date_sub today (7 - i)"
proof -
  have "1 \<le> 7 - i \<and> 7 - i < 8" using assms(2) by arith
  then have "7 - i \<in> set [1..<8]" by simp
  with assms(1) show ?thesis
    unfolding feed_newest_first_def list_all_iff by blast
qed

lemma weekly_row_feed:
  assumes "feed_newest_first data today" and "i < 7"
  shows "weekly_row data today i = Inr (projr (weekly_row data today i))"
  using feed_row [OF assms] by (simp add: weekly_row_eq)

lemma my_table_feed:
  assumes "feed_newest_first data today"
  shows "my_table data today = Inr (map (\<lambda>i. projr (weekly_row data today i)) [0..<7])"
proof -
  have "\<forall>i \<in> set [0..<7]. weekly_row data today i = Inr (projr (weekly_row data today i))"
    using weekly_row_feed [OF assms] by simp
  from table_loop_ok [OF this, of "[]"] show ?thesis by (simp add: my_table_def)
qed

lemma my_table_rows:
  assumes "my_table data today = Inr tbl" and "i < 7"
  shows "length tbl = 7"
    and "weekly_row data today i = Inr (tbl ! i)"
proof -
  from table_loop_Inr [OF assms(1) [unfolded my_table_def]]
  have tbl: "tbl = map (\<lambda>i. projr (weekly_row data today i)) [0..<7]"
    and ok: "\<forall>i \<in> set [0..<7]. weekly_row data today i = Inr (projr (weekly_row data today i))"
    by simp_all
  show "length tbl = 7" by (simp add: tbl)
  from ok assms(2) have "weekly_row data today i = Inr (projr (weekly_row data today i))"
    by simp
  moreover have "tbl ! i = projr (weekly_row data today i)"
    using assms(2) unfolding tbl by (simp del: upt_Suc)
  ultimately show "weekly_row data today i = Inr (tbl ! i)" by simp
qed

lemma index_three_one_ratio:
  "index_three_one_coefficient data today i =
     ratio pay_sum_3 pay_sum_1
       (dated_between data (date_sub (date_sub today (7 - i)) 16)
                           (date_sub (date_sub today (7 - i)) 2))"
  by (simp add: index_three_one_coefficient_def ratio_def window_dated_between date_sub_add)

lemma index_seven_three_ratio:
  "index_seven_three_coefficient data today i =
     ratio pay_sum_7 pay_sum_3
       (dated_between data (date_sub (date_sub today (7 - i)) 20)
                           (date_sub (date_sub today (7 - i)) 6))"
  by (simp add: index_seven_three_coefficient_def ratio_def window_dated_between date_sub_add)

lemma date_sub_0: "date_sub d 0 = d"
  by (simp add: date_sub_def)

lemma prev_day_Date:
  "prev_day (Date y m d) =
     (if 1 < d then Date y m (d - 1)
      else if 1 < m then Date y (m - 1) (days_in_month y (m - 1))
      else Date (y - 1) 12 31)"
  by (simp add: prev_day_def)

lemmas date_eval =
  eval_nat_numeral date_sub_0 date_sub_Suc prev_day_Date days_in_month_def is_leap_def

lemma week_sub:
  "date_sub week_today (Suc 0) = Date 2024 5 19"
  "date_sub week_today 1 = Date 2024 5 19"
  "date_sub week_today 2 = Date 2024 5 18"
  "date_sub week_today 3 = Date 2024 5 17"
  "date_sub week_today 4 = Date 2024 5 16"
  "date_sub week_today 5 = Date 2024 5 15"
  "date_sub week_today 6 = Date 2024 5 14"
  "date_sub week_today 7 = Date 2024 5 13"
  "date_sub week_today 17 = Date 2024 5 3"
  "date_sub week_today 21 = Date 2024 4 29"
  by (simp_all add: date_eval week_today_def)

lemma week_feed: "feed_newest_first week_data week_today"
  unfolding feed_newest_first_def upt_1_8
  by (simp add: week_sub week_data_def week_row_def)

lemma week_labels:
  "map (\<lambda>k. date_label_of (date_sub week_today k)) [7, 6, 5, 4, 3, 2, 1] =
     [''5-13'', ''5-14'', ''5-15'', ''5-16'', ''5-17'', ''5-18'', ''5-19'']"
  by (simp add: week_sub date_label_of_def py_str_def str_nat.simps digit_char_def)

lemma week_ratio31:
  "ratio pay_sum_3 pay_sum_1 (dated_between week_data (Date 2024 5 3) (Date 2024 5 17)) =
     Fin (7 / 5)"
  by (simp add: ratio_def dated_between_def week_data_def week_row_def date_le_def
        date_lt_def col_sum_def np_divide_def)

lemma week_ratio73:
  "ratio pay_sum_7 pay_sum_3 (dated_between week_data (Date 2024 4 29) (Date 2024 5 13)) =
     Fin (9 / 7)"
  by (simp add: ratio_def dated_between_def week_data_def week_row_def date_le_def
        date_lt_def col_sum_def np_divide_def)

text \<open>
  Claim C9, as the program has it. When the data row at position \<open>k\<close> is dated \<open>k\<close>
  days before the as-of date, for \<open>k\<close> from 1 to 7 (the feed lists the days newest
  first, starting with the as-of date), the weekly table has exactly 7 rows, labelled
  with the dates from as-of minus 7 days to as-of minus 1 day, in ascending order of
  date.
\<close>

theorem weekly_table_rows:
  assumes "feed_newest_first data today"
  shows "\<exists>tbl. my_table data today = Inr tbl \<and> length tbl = 7 \<and>
           map date_label tbl =
             map (\<lambda>k. date_label_of (date_sub today k)) [7, 6, 5, 4, 3, 2, 1] \<and>
           (\<forall>i j. i < j \<and> j < 7 \<longrightarrow>
              date_lt (date_sub today (7 - i)) (date_sub today (7 - j)))"
proof -
  have asc: "\<forall>i j. i < j \<and> j < 7 \<longrightarrow>
      date_lt (date_sub today (7 - i)) (date_sub today (7 - j))"
    by (auto intro!: date_sub_lt)
  have lab: "map date_label (map (\<lambda>i. projr (weekly_row data today i)) [0..<7]) =
      map (\<lambda>k. date_label_of (date_sub today k)) [7, 6, 5, 4, 3, 2, 1]"
  proof -
    have "\<forall>i \<in> set [0..<7]. date_label (projr (weekly_row data today i)) =
        date_label_of (date_sub today (7 - i))"
      using feed_row [OF assms] by (simp add: weekly_row_eq)
    then have "map date_label (map (\<lambda>i. projr (weekly_row data today i)) [0..<7]) =
        map (\<lambda>i. date_label_of (date_sub today (7 - i))) [0..<7]"
      by (simp del: upt_Suc)
    also have "\<dots> = map (\<lambda>k. date_label_of (date_sub today k)) [7, 6, 5, 4, 3, 2, 1]"
      unfolding upt_0_7 by simp
    finally show ?thesis .
  qed
  show ?thesis
    using my_table_feed [OF assms] lab asc by simp
qed


theorem weekly_table_rows_witness:
  "feed_newest_first week_data week_today \<and>
   (\<exists>tbl. my_table week_data week_today = Inr tbl \<and> length tbl = 7 \<and>
      map date_label tbl =
        [''5-13'', ''5-14'', ''5-15'', ''5-16'', ''5-17'', ''5-18'', ''5-19''])"
proof -
  from weekly_table_rows [OF week_feed] obtain tbl where
    t1: "my_table week_data week_today = Inr tbl" and t2: "length tbl = 7" and
    t3: "map date_label tbl =
       map (\<lambda>k. date_label_of (date_sub week_today k)) [7, 6, 5, 4, 3, 2, 1]"
    by (elim exE conjE)
  from t3 have t4: "map date_label tbl =
      [''5-13'', ''5-14'', ''5-15'', ''5-16'', ''5-17'', ''5-18'', ''5-19'']"
    by (simp only: week_labels)
  from t1 t2 t4 have "\<exists>tbl. my_table week_data week_today = Inr tbl \<and> length tbl = 7 \<and>
      map date_label tbl =
        [''5-13'', ''5-14'', ''5-15'', ''5-16'', ''5-17'', ''5-18'', ''5-19'']"
    by (intro exI [of _ tbl] conjI)
  with week_feed show ?thesis by (rule conjI)
qed

text \<open>
  The claim as stated fails on a feed with one row per date that lists the days oldest
  first: the lookup by label of the first table row raises \<^verbatim>\<open>KeyError\<close>.
\<close>

theorem oldest_first_key_error:
  "distinct (map end_date (rev week_data)) \<and>
   my_table (rev week_data) week_today = Inl KeyError"
proof -
  have "end_date (rev week_data ! 7) = Date 2024 5 20" "length (rev week_data) = 8"
    by (simp_all add: week_data_def week_row_def)
  then have "weekly_row (rev week_data) week_today 0 = Inl KeyError"
    by (simp add: weekly_row_eq week_sub)
  then have "my_table (rev week_data) week_today = Inl KeyError"
    by (simp add: my_table_def upt_conv_Cons)
  moreover have "distinct (map end_date (rev week_data))"
    by (simp add: week_data_def week_row_def)
  ultimately show ?thesis by simp
qed

text \<open>
  Claim C4. In every weekly table the program produces, row \<open>i\<close> (\<open>i\<close> from 0 to 6) is
  the row of the date \<open>d\<close>, 7 - \<open>i\<close> days before the as-of date, read from the data row
  \<open>r\<close> of that date. Its \<^verbatim>\<open>roi_1\<close> is the observed \<^verbatim>\<open>roi_1\<close> of \<open>r\<close>. Its \<^verbatim>\<open>roi_3\<close> is
  the observed \<^verbatim>\<open>roi_3\<close> when \<open>d\<close> is at most as-of minus 2 days, and otherwise
  \<^verbatim>\<open>roi_1\<close> times the ratio of the sums of \<^verbatim>\<open>pay_sum_3\<close> and \<^verbatim>\<open>pay_sum_1\<close> over the rows
  dated from \<open>d\<close> minus 16 days to \<open>d\<close> minus 2 days. Its \<^verbatim>\<open>roi_7\<close> is the observed
  \<^verbatim>\<open>roi_7\<close> when \<open>d\<close> is at most as-of minus 6 days, and otherwise \<^verbatim>\<open>roi_1\<close> times that
  ratio times the ratio of the sums of \<^verbatim>\<open>pay_sum_7\<close> and \<^verbatim>\<open>pay_sum_3\<close> over the rows
  dated from \<open>d\<close> minus 20 days to \<open>d\<close> minus 6 days. The observed \<^verbatim>\<open>roi_3\<close> is used in
  rows 0 to 5 and the observed \<^verbatim>\<open>roi_7\<close> in rows 0 and 1; only the other cells are
  projected.
\<close>

theorem weekly_cells:
  assumes "my_table data today = Inr tbl" and "i < 7"
  shows
    "let d = date_sub today (7 - i); r = data ! (7 - i);
         ratio_3_over_1 =
           ratio pay_sum_3 pay_sum_1 (dated_between data (date_sub d 16) (date_sub d 2));
         ratio_7_over_3 =
           ratio pay_sum_7 pay_sum_3 (dated_between data (date_sub d 20) (date_sub d 6))
     in end_date r = d \<and>
        roi1_cell (tbl ! i) = Fin (roi_1 r) \<and>
        roi3_cell (tbl ! i) =
          (if date_le d (date_sub today 2) then Fin (roi_3 r)
           else np_multiply (Fin (roi_1 r)) ratio_3_over_1) \<and>
        roi7_cell (tbl ! i) =
          (if date_le d (date_sub today 6) then Fin (roi_7 r)
           else np_multiply (np_multiply (Fin (roi_1 r)) ratio_3_over_1) ratio_7_over_3) \<and>
        date_le d (date_sub today 2) = (i \<le> 5) \<and>
        date_le d (date_sub today 6) = (i \<le> 1)"
proof -
  have row: "weekly_row data today i = Inr (tbl ! i)"
    by (rule my_table_rows(2) [OF assms])
  then have guard: "7 - i < length data \<and> end_date (data ! (7 - i)) = date_sub today (7 - i)"
    by (simp add: weekly_row_eq split: if_splits)
  have m3: "date_le (date_sub today (7 - i)) (date_sub today 2) = (i \<le> 5)"
    using assms(2) by (simp add: date_sub_le_iff) arith
  have m7: "date_le (date_sub today (7 - i)) (date_sub today 6) = (i \<le> 1)"
    using assms(2) by (simp add: date_sub_le_iff) arith
  from row guard have cells:
    "tbl ! i = projr (weekly_row data today i)" by simp
  show ?thesis
    unfolding Let_def cells
    using guard m3 m7
    by (simp add: weekly_row_eq index_three_one_ratio index_seven_three_ratio)
qed

theorem weekly_cells_witness:
  "my_table week_data week_today = Inr (projr (my_table week_data week_today)) \<and>
   (6::nat) < 7 \<and>
   end_date (week_data ! 1) = date_sub week_today 1 \<and>
   roi1_cell (projr (my_table week_data week_today) ! 6) = Fin (1 / 20) \<and>
   roi3_cell (projr (my_table week_data week_today) ! 6) = Fin (7 / 100) \<and>
   roi7_cell (projr (my_table week_data week_today) ! 6) = Fin (9 / 100)"
proof -
  have h: "my_table week_data week_today = Inr (projr (my_table week_data week_today))"
    using my_table_feed [OF week_feed] by simp
  have r: "week_data ! Suc 0 = week_row (Date 2024 5 19)"
    by (simp add: week_data_def)
  have d: "date_sub week_today (7 - 6) = Date 2024 5 19"
      "date_sub (Date 2024 5 19) 16 = Date 2024 5 3"
      "date_sub (Date 2024 5 19) 2 = Date 2024 5 17"
      "date_sub (Date 2024 5 19) 20 = Date 2024 4 29"
      "date_sub (Date 2024 5 19) 6 = Date 2024 5 13"
      "date_sub week_today 1 = Date 2024 5 19"
    by (simp_all add: date_eval week_today_def)
  have r': "week_data ! (7 - 6) = week_row (Date 2024 5 19)"
    by (simp add: week_data_def)
  note c = weekly_cells [OF h, of 6, unfolded Let_def d r' week_ratio31 week_ratio73]
  have e: "end_date (week_data ! 1) = date_sub week_today 1"
    unfolding d by (simp add: week_data_def week_row_def)
  have c1: "roi1_cell (projr (my_table week_data week_today) ! 6) = Fin (1 / 20)"
    using c by (simp add: week_row_def)
  have c3: "roi3_cell (projr (my_table week_data week_today) ! 6) = Fin (7 / 100)"
    using c by (simp add: week_row_def)
  have c7: "roi7_cell (projr (my_table week_data week_today) ! 6) = Fin (9 / 100)"
    using c by (simp add: week_row_def)
  show ?thesis using h e c1 c3 c7 by simp
qed

subsection \<open>The rows the query returns\<close>

text \<open>
  On the rows the query asks for, the rows of the as-of month number are the rows
  dated from the first day of the as-of month up to the as-of date; with one row per
  date there are at most as many of them as the day of the month of the as-of date.
\<close>

lemma fetched_same_month:
  assumes "valid_date d" and "date_le (first_day_of_last_month today) d"
    and "date_le d today" and "month d = month today"
  shows "year d = year today \<and> 1 \<le> day d \<and> day d \<le> day today"
proof -
  from assms(1) have v: "1 \<le> month d" "month d \<le> 12" "1 \<le> day d"
    by (simp_all add: valid_date_def)
  from assms(3) assms(4) have up: "year d < year today \<or> (year d = year today \<and> day d \<le> day today)"
    by (auto simp: date_le_def date_lt_def)
  from assms(2) assms(4) v have lo: "year today \<le> year d"
    by (cases "1 < month today")
       (auto simp: first_day_of_last_month_def date_le_def date_lt_def)
  from up lo v show ?thesis by auto
qed

lemma month_rows_le_day:
  assumes "distinct (map end_date rows)"
    and "\<forall>r \<in> set rows. year (end_date r) = year today \<and> month (end_date r) = month today \<and>
           1 \<le> day (end_date r) \<and> day (end_date r) \<le> day today"
  shows "length rows \<le> nat (day today)"
proof -
  have inj: "inj_on day (set (map end_date rows))"
    using assms(2) by (auto intro!: inj_onI date.expand)
  have "length rows = length (map end_date rows)" by simp
  also have "\<dots> = card (set (map end_date rows))"
    using distinct_card [OF assms(1)] by simp
  also have "\<dots> = card (day ` set (map end_date rows))"
    using inj by (simp add: card_image)
  also have "\<dots> \<le> card {1..day today}"
    using assms(2) by (intro card_mono) auto
  finally show ?thesis by simp
qed

lemma seven_rows_day_7:
  assumes "fetched data today" and "distinct (map end_date data)"
    and "7 \<le> length (this_month_data data today)"
  shows "7 \<le> day today"
proof -
  have d: "distinct (map end_date (this_month_data data today))"
    using assms(2) by (simp add: this_month_data_def distinct_map_filter)
  have "\<forall>r \<in> set (this_month_data data today).
      year (end_date r) = year today \<and> month (end_date r) = month today \<and>
      1 \<le> day (end_date r) \<and> day (end_date r) \<le> day today"
    using assms(1) fetched_same_month
    by (auto simp: this_month_data_def fetched_def list_all_iff)
  from month_rows_le_day [OF d this] assms(3) show ?thesis by simp
qed

lemma month_to_date_iff:
  assumes "valid_date d" and "date_le (first_day_of_last_month today) d"
    and "date_le d today"
  shows "(month d = month today) =
     (date_le (first_day_of_month today) d \<and> date_le d today)"
proof
  assume m: "month d = month today"
  from fetched_same_month [OF assms m]
  have "year d = year today" "1 \<le> day d" by simp_all
  with m have "date_le (first_day_of_month today) d"
    by (cases d) (auto simp: first_day_of_month_def date_le_def date_lt_def)
  with assms(3) show "date_le (first_day_of_month today) d \<and> date_le d today" by simp
next
  assume "date_le (first_day_of_month today) d \<and> date_le d today"
  then show "month d = month today"
    by (auto simp: first_day_of_month_def date_le_def date_lt_def)
qed

lemma this_month_data_month_to_date:
  assumes "fetched data today"
  shows "this_month_data data today = month_to_date data today"
  unfolding this_month_data_def month_to_date_def dated_between_def
proof (rule filter_cong [OF refl])
  fix r assume "r \<in> set data"
  with assms have "valid_date (end_date r)"
      "date_le (first_day_of_last_month today) (end_date r)" "date_le (end_date r) today"
    by (simp_all add: fetched_def list_all_iff)
  from month_to_date_iff [OF this]
  show "(month (end_date r) = month today) =
      (date_le (first_day_of_month today) (end_date r) \<and> date_le (end_date r) today)" .
qed

subsection \<open>The global coefficients\<close>

text \<open>
  Claim C5. On the rows the query returns, the global \<^verbatim>\<open>ratio_3_over_1\<close> is the sum of
  \<^verbatim>\<open>pay_sum_3\<close> divided by the sum of \<^verbatim>\<open>pay_sum_1\<close> over the rows dated from as-of minus
  17 days to as-of minus 3 days; the global \<^verbatim>\<open>ratio_7_over_3\<close> is the sum of
  \<^verbatim>\<open>pay_sum_7\<close> divided by the sum of \<^verbatim>\<open>pay_sum_3\<close> over the rows dated from as-of minus
  21 days to as-of minus 7 days; and \<^verbatim>\<open>predicted_7roi\<close> is the month-to-date 1-day ROI
  (the sum of \<^verbatim>\<open>pay_sum_1\<close> divided by the sum of \<^verbatim>\<open>cost\<close> over the rows dated from the
  first day of the as-of month up to the as-of date) times the first coefficient, times
  the second. The witness is a feed that also holds a row of the previous month.
\<close>

theorem global_coefficients:
  assumes "fetched data today"
  shows
    "three_one_coefficient data today =
       ratio pay_sum_3 pay_sum_1
         (dated_between data (date_sub today 17) (date_sub today 3)) \<and>
     seven_three_coefficient data today =
       ratio pay_sum_7 pay_sum_3
         (dated_between data (date_sub today 21) (date_sub today 7)) \<and>
     predicted_7roi data today =
       np_multiply
         (np_multiply
            (ratio pay_sum_1 cost (month_to_date data today))
            (ratio pay_sum_3 pay_sum_1
               (dated_between data (date_sub today 17) (date_sub today 3))))
         (ratio pay_sum_7 pay_sum_3
            (dated_between data (date_sub today 21) (date_sub today 7)))"
  using this_month_data_month_to_date [OF assms]
  by (simp add: three_one_coefficient_def seven_three_coefficient_def predicted_7roi_def
        ratio_def window_dated_between)

lemma span_fetched: "fetched span_data week_today"
  by (simp add: fetched_def span_data_def week_data_def week_row_def week_today_def
        first_day_of_last_month_def valid_date_def days_in_month_def date_le_def date_lt_def)

lemma span_ratio31:
  "ratio pay_sum_3 pay_sum_1 (dated_between span_data (Date 2024 5 3) (Date 2024 5 17)) =
     Fin (7 / 5)"
  by (simp add: ratio_def dated_between_def span_data_def week_data_def week_row_def
        date_le_def date_lt_def col_sum_def np_divide_def)

lemma span_ratio73:
  "ratio pay_sum_7 pay_sum_3 (dated_between span_data (Date 2024 4 29) (Date 2024 5 13)) =
     Fin (29 / 21)"
  by (simp add: ratio_def dated_between_def span_data_def week_data_def week_row_def
        date_le_def date_lt_def col_sum_def np_divide_def)

lemma span_month_to_date: "month_to_date span_data week_today = week_data"
  by (simp add: month_to_date_def dated_between_def first_day_of_month_def span_data_def week_data_def
        week_row_def week_today_def date_le_def date_lt_def)

lemma week_ratio_1roi: "ratio pay_sum_1 cost week_data = Fin (1 / 20)"
  by (simp add: ratio_def week_data_def week_row_def col_sum_def np_divide_def)

theorem global_coefficients_witness:
  "fetched span_data week_today \<and>
   month_to_date span_data week_today = week_data \<and>
   three_one_coefficient span_data week_today = Fin (7 / 5) \<and>
   seven_three_coefficient span_data week_today = Fin (29 / 21) \<and>
   predicted_7roi span_data week_today = Fin (29 / 300)"
  using global_coefficients [OF span_fetched] span_fetched
  by (simp add: week_sub span_ratio31 span_ratio73 span_month_to_date week_ratio_1roi)

subsection \<open>Month-to-date 7-day ROI\<close>

lemma date_sub_6: "7 \<le> day d \<Longrightarrow> date_sub d 6 = Date (year d) (month d) (day d - 6)"
  by (cases d) (simp add: date_eval)

text \<open>
  Claim C3. On the rows the query returns, one row per date, \<^verbatim>\<open>total_7roi\<close> is exactly
  0 when fewer than 7 rows are dated from the first day of the as-of month up to the
  as-of date, whatever their cost and revenue. Otherwise it is the sum of \<^verbatim>\<open>pay_sum_7\<close>
  divided by the sum of \<^verbatim>\<open>cost\<close> over the month-to-date rows dated at most as-of minus 6
  days, rounded to 4 decimal places by \<^verbatim>\<open>round\<close>.
\<close>

theorem total_7roi_cases:
  assumes "fetched data today" and "distinct (map end_date data)" and "valid_date today"
  shows
    "(length (month_to_date data today) < 7 \<longrightarrow>
        total_7roi_calculator round_nd data today = Inr (Fin 0)) \<and>
     (7 \<le> length (month_to_date data today) \<longrightarrow>
        total_7roi_calculator round_nd data today =
          Inr (round_nd 4
                 (ratio pay_sum_7 cost
                    (filter (\<lambda>r. date_le (end_date r) (date_sub today 6))
                            (month_to_date data today)))))"
proof -
  note mtd = this_month_data_month_to_date [OF assms(1)]
  have "7 \<le> length (month_to_date data today) \<Longrightarrow>
      to_datetime (year today) (month today) (day today - 6) = Inr (date_sub today 6)"
  proof -
    assume "7 \<le> length (month_to_date data today)"
    then have "7 \<le> length (this_month_data data today)" by (simp add: mtd)
    from seven_rows_day_7 [OF assms(1) assms(2) this] have "7 \<le> day today" .
    with assms(3) show ?thesis
      by (simp add: to_datetime_def valid_date_def date_sub_6)
  qed
  then show ?thesis
    by (auto simp: total_7roi_calculator_def mtd bind_err_def ratio_def Let_def)
qed

lemma week_fetched: "fetched week_data week_today \<and> distinct (map end_date week_data)"
  by (simp add: fetched_def week_data_def week_row_def week_today_def
        first_day_of_last_month_def valid_date_def days_in_month_def date_le_def date_lt_def)

lemma zero_fetched: "fetched zero_data week_today \<and> distinct (map end_date zero_data)"
  by (simp add: fetched_def zero_data_def week_today_def
        first_day_of_last_month_def valid_date_def days_in_month_def date_le_def date_lt_def)

lemma week_month_to_date: "month_to_date week_data week_today = week_data"
  by (simp add: month_to_date_def dated_between_def first_day_of_month_def week_data_def
        week_row_def week_today_def date_le_def date_lt_def)

lemma zero_month_to_date: "month_to_date zero_data week_today = zero_data"
  by (simp add: month_to_date_def dated_between_def first_day_of_month_def zero_data_def
        week_today_def date_le_def date_lt_def)

lemma week_mature:
  "exact_round 4 (ratio pay_sum_7 cost
     (filter (\<lambda>r. date_le (end_date r) (Date 2024 5 14)) week_data)) = Fin (9 / 100)"
  by (simp add: exact_round_def round_to_def rint_def ratio_def col_sum_def np_divide_def
        week_data_def week_row_def date_le_def date_lt_def)

theorem total_7roi_cases_witness:
  "fetched zero_data week_today \<and> distinct (map end_date zero_data) \<and>
   length (month_to_date zero_data week_today) < 7 \<and>
   total_7roi_calculator exact_round zero_data week_today = Inr (Fin 0) \<and>
   fetched week_data week_today \<and> distinct (map end_date week_data) \<and>
   valid_date week_today \<and>
   7 \<le> length (month_to_date week_data week_today) \<and>
   total_7roi_calculator exact_round week_data week_today = Inr (Fin (9 / 100))"
proof -
  have v: "valid_date week_today"
    by (simp add: valid_date_def week_today_def days_in_month_def)
  have a: "length (month_to_date zero_data week_today) < 7"
    unfolding zero_month_to_date by (simp add: zero_data_def)
  have b: "7 \<le> length (month_to_date week_data week_today)"
    unfolding week_month_to_date by (simp add: week_data_def)
  from zero_fetched have zf: "fetched zero_data week_today"
    and zd: "distinct (map end_date zero_data)" by simp_all
  from week_fetched have wf: "fetched week_data week_today"
    and wd: "distinct (map end_date week_data)" by simp_all
  from total_7roi_cases [OF zf zd v, of exact_round] a
  have d: "total_7roi_calculator exact_round zero_data week_today = Inr (Fin 0)" by simp
  from total_7roi_cases [OF wf wd v, of exact_round] b
  have "total_7roi_calculator exact_round week_data week_today =
      Inr (exact_round 4 (ratio pay_sum_7 cost
        (filter (\<lambda>r. date_le (end_date r) (date_sub week_today 6))
                (month_to_date week_data week_today))))"
    by simp
  then have e: "total_7roi_calculator exact_round week_data week_today = Inr (Fin (9 / 100))"
    unfolding week_month_to_date week_sub week_mature .
  from a b d e v zf zd wf wd show ?thesis by simp
qed

text \<open>
  Outside the rows the query returns the observation day can fail to be a date: with
  seven rows of May and the as-of date 2024-05-03 the program builds the text
  \<^verbatim>\<open>2024-5--3\<close> from \<^verbatim>\<open>today.day-6\<close>, and comparing the dates with it raises. Such a
  frame holds rows dated after the as-of date, which the query does not return.
\<close>

lemma early_month_type_error:
  "\<not> length (this_month_data early_data early_today) < 7 \<and>
   \<not> fetched early_data early_today \<and>
   total_7roi_calculator round_nd early_data early_today = Inl TypeError"
  by (simp add: total_7roi_calculator_def this_month_data_def early_data_def early_today_def
        week_row_def to_datetime_def valid_date_def bind_err_def fetched_def
        date_le_def date_lt_def)

subsection \<open>Missing guards\<close>


end
